theory Spec2Isabelle
  imports Main
begin

section \<open>The upload controller of static/app.js\<close>

text \<open>
  The script registers one \<^verbatim>\<open>submit\<close> handler on the upload form. The handler reads
  the file input, writes to three page elements (the status element, the result section
  and the result text area), calls \<^verbatim>\<open>fetch\<close> once and logs to the console in
  its \<^verbatim>\<open>catch\<close> block. The model below passes the page through the handler
  explicitly; whatever the browser supplies (the selected files, the network's answer, the
  built-in conversions) is an input of the model. The page is taken to hold the five
  elements the script looks up by id, the one with id \<^verbatim>\<open>image\<close> being a file input.
\<close>

subsection \<open>JavaScript values that reach the handler\<close>

text \<open>
  What \<^verbatim>\<open>response.json()\<close> resolves to: a JSON value. Numbers are IEEE doubles, which
  the handler never computes with, so their type \<open>'n\<close> is left open. An object holds its
  own properties, in enumeration order; the keys of an object built by the JSON parser are
  distinct. Strings are byte strings (UTF-8).
\<close>

datatype 'n json =
    JNull
  | JBool bool
  | JNum 'n
  | JStr string
  | JArr "'n json list"
  | JObj "(string \<times> 'n json) list"

text \<open>The exceptions a run can meet, each with the engine's message.\<close>

datatype js_exn =
    TypeError string
  | SyntaxError string
  | RangeError string
  | OtherError string string

text \<open>
  The built-ins of the host the handler relies on and that live outside the repository:
  \<^item> \<open>number_falsy\<close>: \<^verbatim>\<open>ToBoolean\<close> on a number is false (the number is \<open>+0\<close>, \<open>-0\<close> or
    \<open>NaN\<close>);
  \<^item> \<open>dom_string\<close>: the conversion the \<^verbatim>\<open>textContent\<close> setter applies to a value that
    is not a string (\<^verbatim>\<open>ToString\<close>), which can throw, for instance on an object whose
    own \<^verbatim>\<open>toString\<close> property is not callable;
  \<^item> \<open>json_stringify\<close>: \<^verbatim>\<open>JSON.stringify(v, null, 2)\<close> on a parsed JSON value, which
    throws a \<^verbatim>\<open>RangeError\<close> when the value is nested deeper than the engine's stack
    allows.
\<close>

record 'n platform =
  number_falsy :: "'n \<Rightarrow> bool"
  dom_string :: "'n json \<Rightarrow> js_exn + string"
  json_stringify :: "'n json \<Rightarrow> js_exn + string"

text \<open>\<^verbatim>\<open>ToBoolean\<close>, as the operator \<^verbatim>\<open>||\<close> applies it to its left operand.\<close>

fun truthy :: "'n platform \<Rightarrow> 'n json \<Rightarrow> bool" where
  "truthy P JNull = False"
| "truthy P (JBool b) = b"
| "truthy P (JNum n) = (\<not> number_falsy P n)"
| "truthy P (JStr s) = (s \<noteq> [])"
| "truthy P (JArr xs) = True"
| "truthy P (JObj kvs) = True"

text \<open>
  The property read \<^verbatim>\<open>payload.error\<close>: a \<^verbatim>\<open>TypeError\<close> on \<^verbatim>\<open>null\<close>, the own property
  of an object when it has one, and \<^verbatim>\<open>undefined\<close> (\<open>None\<close>) otherwise, since no prototype
  of a parsed JSON value defines \<^verbatim>\<open>error\<close>.
\<close>

fun error_field :: "'n json \<Rightarrow> js_exn + 'n json option" where
  "error_field JNull = Inl (TypeError ''Cannot read properties of null (reading 'error')'')"
| "error_field (JObj kvs) = Inr (map_of kvs ''error'')"
| "error_field v = Inr None"

text \<open>
  What the assignment \<^verbatim>\<open>statusEl.textContent = message\<close> stores for a message that is a
  JavaScript value: a string as it is, anything else converted by the host.
\<close>

fun message_text :: "'n platform \<Rightarrow> 'n json \<Rightarrow> js_exn + string" where
  "message_text P (JStr s) = Inr s"
| "message_text P v = dom_string P v"

subsection \<open>The network's answer\<close>

text \<open>
  A response carries its HTTP status and the outcome of \<^verbatim>\<open>response.json()\<close>, which
  rejects on a body that is not JSON. \<^verbatim>\<open>response.ok\<close> is true for a status from 200 to
  299. \<^verbatim>\<open>fetch\<close> itself rejects when no response arrives.
\<close>

record 'n response =
  status :: nat
  json_body :: "js_exn + 'n json"

definition ok :: "'n response \<Rightarrow> bool" where
  "ok r = (200 \<le> status r \<and> status r \<le> 299)"

datatype 'n fetch_outcome =
    Rejected js_exn
  | Resolved "'n response"

subsection \<open>The page and the calls to the host\<close>

text \<open>
  A request as \<^verbatim>\<open>fetch\<close> receives it: the path, the method and the entries of the
  \<^verbatim>\<open>FormData\<close> body, which the host sends as multipart form data.
\<close>

record 'f request =
  url :: string
  http_method :: string
  form_data :: "(string \<times> 'f) list"

datatype 'f host_call =
    PreventDefault
  | Fetch "'f request"
  | ConsoleError js_exn

text \<open>
  The state the script reads and writes: \<^verbatim>\<open>statusEl.textContent\<close>,
  \<^verbatim>\<open>statusEl.className\<close>, \<^verbatim>\<open>resultSection.hidden\<close>, \<^verbatim>\<open>resultPre.textContent\<close>, and the
  calls made to the host so far, oldest first.
\<close>

record 'f page =
  status_text :: string
  status_class :: string
  result_hidden :: bool
  result_text :: string
  host_calls :: "'f host_call list"

definition call :: "'f host_call \<Rightarrow> 'f page \<Rightarrow> 'f page" where
  "call c st = st\<lparr>host_calls := host_calls st @ [c]\<rparr>"

fun fetch_calls :: "'f host_call list \<Rightarrow> 'f request list" where
  "fetch_calls [] = []"
| "fetch_calls (Fetch r # cs) = r # fetch_calls cs"
| "fetch_calls (c # cs) = fetch_calls cs"

fun console_errors :: "'f host_call list \<Rightarrow> js_exn list" where
  "console_errors [] = []"
| "console_errors (ConsoleError e # cs) = e # console_errors cs"
| "console_errors (c # cs) = console_errors cs"

subsection \<open>setStatus and showResult\<close>

definition setStatus :: "string \<Rightarrow> bool \<Rightarrow> 'f page \<Rightarrow> 'f page" where
  "setStatus message isError st =
     st\<lparr>status_text := message,
        status_class := (if isError then ''status error'' else ''status'')\<rparr>"

text \<open>
  \<^verbatim>\<open>showResult\<close> serialises first: when \<^verbatim>\<open>JSON.stringify\<close> throws, neither assignment
  of lines 12 and 13 takes place.
\<close>

definition showResult :: "'n platform \<Rightarrow> 'n json \<Rightarrow> 'f page \<Rightarrow> js_exn + 'f page" where
  "showResult P data st =
     (case json_stringify P data of
        Inl e \<Rightarrow> Inl e
      | Inr text \<Rightarrow> Inr (st\<lparr>result_text := text, result_hidden := False\<rparr>))"

subsection \<open>The submit handler\<close>

text \<open>
  The message of line 26 ends in U+2026 (horizontal ellipsis), three bytes in UTF-8. The
  other messages are ASCII and stand in the handler as the source has them.
\<close>

definition analyzing_message :: string where
  "analyzing_message = ''Analyzing image'' @ [CHR 0xE2, CHR 0x80, CHR 0xA6]"

text \<open>
  The handler is asynchronous. Lines 17 to 33 run when the event is dispatched and end
  either at the early \<^verbatim>\<open>return\<close> of line 21 (\<open>Done\<close>) or at the first \<^verbatim>\<open>await\<close>, with
  the request issued (\<open>Awaiting\<close>).
\<close>

datatype 'f suspended = Done "'f page" | Awaiting "'f page"

definition submit_begin :: "'f list \<Rightarrow> 'f page \<Rightarrow> 'f suspended" where
  "submit_begin files st0 =
     (let st = call PreventDefault st0 in
      if length files = 0 then Done (setStatus ''Please choose a PNG or JPEG file to analyze.'' True st)
      else
        let formData = [(''image'', hd files)];
            st = setStatus analyzing_message False st;
            st = st\<lparr>result_hidden := True\<rparr>
        in Awaiting
             (call (Fetch \<lparr>url = ''/analyze'', http_method = ''POST'', form_data = formData\<rparr>) st))"

text \<open>
  The rest of the \<^verbatim>\<open>try\<close> block, lines 30 to 43, from the outcome of \<^verbatim>\<open>fetch\<close>: the
  page it leaves and the exception it throws, if any. A throw of either \<^verbatim>\<open>await\<close>, of
  the property read of line 37 or of the conversion of the message in \<^verbatim>\<open>setStatus\<close>
  comes before any assignment and leaves the page as it was; a throw of \<^verbatim>\<open>showResult\<close>
  at line 43 leaves it with the status written at line 42.
\<close>

definition try_block :: "'n platform \<Rightarrow> 'n fetch_outcome \<Rightarrow> 'f page \<Rightarrow> js_exn option \<times> 'f page" where
  "try_block P outcome st =
     (case outcome of
        Rejected e \<Rightarrow> (Some e, st)
      | Resolved response \<Rightarrow>
          (case json_body response of
             Inl e \<Rightarrow> (Some e, st)
           | Inr payload \<Rightarrow>
               if \<not> ok response then
                 (case error_field payload of
                    Inl e \<Rightarrow> (Some e, st)
                  | Inr field \<Rightarrow>
                      let message =
                            (case field of
                               Some v \<Rightarrow> if truthy P v then v else JStr ''The analysis failed.''
                             | None \<Rightarrow> JStr ''The analysis failed.'')
                      in (case message_text P message of
                            Inl e \<Rightarrow> (Some e, st)
                          | Inr text \<Rightarrow> (None, setStatus text True st)))
               else
                 let st = setStatus ''Analysis complete.'' False st
                 in (case showResult P payload st of
                       Inl e \<Rightarrow> (Some e, st)
                     | Inr st' \<Rightarrow> (None, st'))))"

text \<open>The continuation after the \<^verbatim>\<open>await\<close>: the \<^verbatim>\<open>try\<close> block and its \<^verbatim>\<open>catch\<close>.\<close>

definition submit_resume :: "'n platform \<Rightarrow> 'n fetch_outcome \<Rightarrow> 'f page \<Rightarrow> 'f page" where
  "submit_resume P outcome st =
     (case try_block P outcome st of
        (None, st') \<Rightarrow> st'
      | (Some error, st') \<Rightarrow> setStatus ''Unexpected error while analyzing the image.'' True (call (ConsoleError error) st'))"

text \<open>
  One submission run to its end with no other event handled in between: \<open>files\<close> is
  \<^verbatim>\<open>fileInput.files\<close> at the event, \<open>outcome\<close> what the network answers.
\<close>

definition submit :: "'n platform \<Rightarrow> 'f list \<Rightarrow> 'n fetch_outcome \<Rightarrow> 'f page \<Rightarrow> 'f page" where
  "submit P files outcome st =
     (case submit_begin files st of
        Done st' \<Rightarrow> st'
      | Awaiting st' \<Rightarrow> submit_resume P outcome st')"


subsection \<open>The state a page shows\<close>

text \<open>
  The script keeps no state variable. Which of the four submission states a page is in is
  read off the status element as the handler's calls of \<^verbatim>\<open>setStatus\<close> leave it: the
  error class for \<open>Error\<close>, the message of line 26 for \<open>Analyzing\<close>, the message of line 42
  for \<open>Success\<close>, and \<open>Idle\<close> for a page no submission has written to yet.
\<close>

datatype SubmissionState = Idle | Analyzing | Success | Error

definition submission_state :: "'f page \<Rightarrow> SubmissionState" where
  "submission_state st =
     (if status_class st = ''status error'' then Error
      else if status_text st = analyzing_message then Analyzing
      else if status_text st = ''Analysis complete.'' then Success
      else Idle)"

text \<open>What the user sees of a page: the status, its styling, and the result surface.\<close>

definition visible_state :: "'f page \<Rightarrow> string \<times> string \<times> bool \<times> string" where
  "visible_state st = (status_text st, status_class st, result_hidden st, result_text st)"

subsection \<open>A host to run the model on\<close>

text \<open>
  The theorems below hold for every host. To run the handler on concrete inputs, this
  host takes a number to be the text the engine prints for it (\<open>''0.82''\<close>), serialises as
  \<^verbatim>\<open>JSON.stringify\<close> does with an indentation of two spaces, and converts to a string as
  \<^verbatim>\<open>ToString\<close> does on parsed JSON values: arrays join their elements with commas,
  printing \<^verbatim>\<open>null\<close> as nothing, and an object is \<^verbatim>\<open>[object Object]\<close> unless an own
  \<^verbatim>\<open>toString\<close> property, never callable in parsed JSON, shadows the inherited method.
  Both conversions recurse on the value, and an engine gives up with \<^verbatim>\<open>RangeError\<close> when
  its stack is exhausted; the depth at which that happens is the engine's, and this host
  takes it to be 4000 levels of arrays or objects.
\<close>

fun depth :: "'n json \<Rightarrow> nat" where
  "depth (JArr xs) = Suc (fold max (map depth xs) 0)"
| "depth (JObj kvs) = Suc (fold max (map (\<lambda>(k, v). depth v) kvs) 0)"
| "depth v = 0"

definition stack_depth :: nat where
  "stack_depth = 4000"

definition within_stack :: "'n json \<Rightarrow> (js_exn + string) \<Rightarrow> js_exn + string" where
  "within_stack v result =
     (if stack_depth < depth v then Inl (RangeError ''Maximum call stack size exceeded'')
      else result)"

fun join :: "string \<Rightarrow> string list \<Rightarrow> string" where
  "join sep [] = []"
| "join sep [x] = x"
| "join sep (x # y # ys) = x @ sep @ join sep (y # ys)"

definition hex_digit :: "nat \<Rightarrow> char" where
  "hex_digit d = ''0123456789abcdef'' ! d"

definition quote_char :: "char \<Rightarrow> string" where
  "quote_char c =
     (if c = CHR 0x22 then [CHR 0x5C, CHR 0x22]
      else if c = CHR 0x5C then [CHR 0x5C, CHR 0x5C]
      else if c = CHR 0x08 then [CHR 0x5C, CHR ''b'']
      else if c = CHR 0x09 then [CHR 0x5C, CHR ''t'']
      else if c = CHR 0x0A then [CHR 0x5C, CHR ''n'']
      else if c = CHR 0x0C then [CHR 0x5C, CHR ''f'']
      else if c = CHR 0x0D then [CHR 0x5C, CHR ''r'']
      else if (of_char c :: nat) < 32
        then [CHR 0x5C, CHR ''u'', CHR ''0'', CHR ''0'',
              hex_digit (of_char c div 16), hex_digit (of_char c mod 16)]
      else [c])"

definition quote :: "string \<Rightarrow> string" where
  "quote s = [CHR 0x22] @ concat (map quote_char s) @ [CHR 0x22]"

fun stringify_at :: "string \<Rightarrow> string json \<Rightarrow> string" where
  "stringify_at indent JNull = ''null''"
| "stringify_at indent (JBool b) = (if b then ''true'' else ''false'')"
| "stringify_at indent (JNum n) =
     (if n = ''NaN'' \<or> n = ''Infinity'' \<or> n = ''-Infinity'' then ''null'' else n)"
| "stringify_at indent (JStr s) = quote s"
| "stringify_at indent (JArr xs) =
     (if xs = [] then ''[]''
      else ''['' @ [CHR 0x0A] @ indent @ ''  ''
           @ join ('','' @ [CHR 0x0A] @ indent @ ''  '')
               (map (stringify_at (indent @ ''  '')) xs)
           @ [CHR 0x0A] @ indent @ '']'')"
| "stringify_at indent (JObj kvs) =
     (if kvs = [] then ''{}''
      else ''{'' @ [CHR 0x0A] @ indent @ ''  ''
           @ join ('','' @ [CHR 0x0A] @ indent @ ''  '')
               (map (\<lambda>(k, v). quote k @ '': '' @ stringify_at (indent @ ''  '') v) kvs)
           @ [CHR 0x0A] @ indent @ ''}'')"

fun first_error :: "('e + 'a) list \<Rightarrow> 'e + 'a list" where
  "first_error [] = Inr []"
| "first_error (Inl e # rs) = Inl e"
| "first_error (Inr x # rs) = (case first_error rs of Inl e \<Rightarrow> Inl e | Inr xs \<Rightarrow> Inr (x # xs))"

fun to_string :: "string json \<Rightarrow> js_exn + string" where
  "to_string JNull = Inr ''null''"
| "to_string (JBool b) = Inr (if b then ''true'' else ''false'')"
| "to_string (JNum n) = Inr n"
| "to_string (JStr s) = Inr s"
| "to_string (JArr xs) =
     (case first_error (map (\<lambda>x. case x of JNull \<Rightarrow> Inr [] | _ \<Rightarrow> to_string x) xs) of
        Inl e \<Rightarrow> Inl e
      | Inr parts \<Rightarrow> Inr (join '','' parts))"
| "to_string (JObj kvs) =
     (if ''toString'' \<in> fst ` set kvs
      then Inl (TypeError ''Cannot convert object to primitive value'')
      else Inr ''[object Object]'')"

text \<open>The \<^verbatim>\<open>textContent\<close> setter stores the empty string for \<^verbatim>\<open>null\<close>.\<close>

definition sample_host :: "string platform" where
  "sample_host =
     \<lparr>number_falsy = (\<lambda>n. n = ''0'' \<or> n = ''NaN''),
      dom_string = (\<lambda>v. case v of JNull \<Rightarrow> Inr [] | _ \<Rightarrow> within_stack v (to_string v)),
      json_stringify = (\<lambda>v. within_stack v (Inr (stringify_at [] v)))\<rparr>"

text \<open>A body of \<open>n\<close> arrays around an empty one: \<^verbatim>\<open>[]\<close>, \<^verbatim>\<open>[[]]\<close>, \<^verbatim>\<open>[[[]]]\<close> and so on.\<close>

fun nested :: "nat \<Rightarrow> 'n json" where
  "nested 0 = JArr []"
| "nested (Suc n) = JArr [nested n]"

text \<open>A page before any submission, its status empty and its result section hidden.\<close>

definition blank_page :: "'f page" where
  "blank_page =
     \<lparr>status_text = [], status_class = ''status'', result_hidden = True, result_text = [],
      host_calls = []\<rparr>"


section \<open>Properties of the handler\<close>

subsection \<open>Auxiliary facts\<close>

lemma fetch_calls_append: "fetch_calls (cs @ ds) = fetch_calls cs @ fetch_calls ds"
  by (induction cs rule: fetch_calls.induct) simp_all

lemma console_errors_append: "console_errors (cs @ ds) = console_errors cs @ console_errors ds"
  by (induction cs rule: console_errors.induct) simp_all

lemmas page_simps = setStatus_def showResult_def call_def fetch_calls_append console_errors_append

lemma submit_no_file:
  "submit P [] outcome st =
     setStatus ''Please choose a PNG or JPEG file to analyze.'' True (call PreventDefault st)"
  by (simp add: submit_def submit_begin_def)

lemma submit_with_file:
  "submit P (f # fs) outcome st =
     submit_resume P outcome
       (call (Fetch \<lparr>url = ''/analyze'', http_method = ''POST'', form_data = [(''image'', f)]\<rparr>)
          ((setStatus analyzing_message False (call PreventDefault st))\<lparr>result_hidden := True\<rparr>))"
  by (simp add: submit_def submit_begin_def)

lemma resume_thrown:
  "outcome = Rejected e \<or> (\<exists>r. outcome = Resolved r \<and> json_body r = Inl e) \<Longrightarrow>
   submit_resume P outcome st =
     setStatus ''Unexpected error while analyzing the image.'' True (call (ConsoleError e) st)"
  by (auto simp: submit_resume_def try_block_def)

lemma resume_success:
  "ok r \<Longrightarrow> json_body r = Inr payload \<Longrightarrow> json_stringify P payload = Inr text \<Longrightarrow>
   submit_resume P (Resolved r) st =
     (setStatus ''Analysis complete.'' False st)\<lparr>result_text := text, result_hidden := False\<rparr>"
  by (simp add: submit_resume_def try_block_def showResult_def)

lemma resume_unserialised:
  "ok r \<Longrightarrow> json_body r = Inr payload \<Longrightarrow> json_stringify P payload = Inl e \<Longrightarrow>
   submit_resume P (Resolved r) st =
     setStatus ''Unexpected error while analyzing the image.'' True
       (call (ConsoleError e) (setStatus ''Analysis complete.'' False st))"
  by (simp add: submit_resume_def try_block_def showResult_def)

lemma resume_rejected:
  "\<not> ok r \<Longrightarrow> json_body r = Inr payload \<Longrightarrow> error_field payload = Inr field \<Longrightarrow>
   submit_resume P (Resolved r) st =
     (case message_text P (case field of
                             Some v \<Rightarrow> if truthy P v then v else JStr ''The analysis failed.''
                           | None \<Rightarrow> JStr ''The analysis failed.'') of
        Inl e \<Rightarrow> setStatus ''Unexpected error while analyzing the image.'' True
                   (call (ConsoleError e) st)
      | Inr text \<Rightarrow> setStatus text True st)"
  by (simp add: submit_resume_def try_block_def split: sum.splits)

lemma null_body_thrown:
  "\<not> ok r \<Longrightarrow> json_body r = Inr JNull \<Longrightarrow>
   status_text (submit P (f # fs) (Resolved r) st) = ''Unexpected error while analyzing the image.''"
  by (simp add: submit_with_file submit_resume_def try_block_def setStatus_def)

lemma error_class_state: "status_class st = ''status error'' \<Longrightarrow> submission_state st = Error"
  by (simp add: submission_state_def)

lemma falsy_iff:
  "\<not> truthy P v \<longleftrightarrow>
     v = JNull \<or> v = JBool False \<or> v = JStr [] \<or> (\<exists>n. v = JNum n \<and> number_falsy P n)"
  by (cases v) auto

lemma depth_nested: "depth (nested n :: 'n json) = Suc n"
  by (induction n) simp_all

lemma no_file_run:
  "status_text (submit P [] outcome st) = ''Please choose a PNG or JPEG file to analyze.''
   \<and> fetch_calls (host_calls (submit P [] outcome st)) = fetch_calls (host_calls st)
   \<and> result_hidden (submit P [] outcome st) = result_hidden st"
  by (simp add: submit_no_file page_simps)

lemma sample_stringify_empty_object: "json_stringify sample_host (JObj []) = Inr ''{}''"
  by (simp add: sample_host_def within_stack_def stack_depth_def)

subsection \<open>Submitting with no file selected\<close>

text \<open>
  C2. The claim: on every submission with no file selected the status text is exactly
  "Please choose a PNG or JPEG file to analyze.", no network request is issued, and the
  result surface remains hidden. The handler sets the message and issues no request, but
  it returns at line 21 without writing \<^verbatim>\<open>resultSection.hidden\<close>: on the page left by
  a successful submission, a submission with no file selected shows the message, adds no
  request to the one of the first run, and leaves the result surface visible.
\<close>

theorem no_file_after_success_result_visible:
  "status_text
     (submit sample_host [] (Rejected (TypeError ''Failed to fetch''))
        (submit sample_host [''scene.png''] (Resolved \<lparr>status = 200, json_body = Inr (JObj [])\<rparr>)
           blank_page))
    = ''Please choose a PNG or JPEG file to analyze.''
   \<and> fetch_calls
        (host_calls
           (submit sample_host [] (Rejected (TypeError ''Failed to fetch''))
              (submit sample_host [''scene.png''] (Resolved \<lparr>status = 200, json_body = Inr (JObj [])\<rparr>)
                 blank_page)))
       = fetch_calls
           (host_calls
              (submit sample_host [''scene.png''] (Resolved \<lparr>status = 200, json_body = Inr (JObj [])\<rparr>)
                 blank_page))
   \<and> \<not> result_hidden
        (submit sample_host [] (Rejected (TypeError ''Failed to fetch''))
           (submit sample_host [''scene.png''] (Resolved \<lparr>status = 200, json_body = Inr (JObj [])\<rparr>)
              blank_page))"
  by (simp add: no_file_run submit_with_file ok_def
        resume_success [OF _ _ sample_stringify_empty_object])

subsection \<open>The result surface outside of success\<close>

text \<open>
  C1. The claim: in every reachable state other than \<open>Success\<close> the result surface is hidden,
  also after the no-file transition into \<open>Error\<close> that follows a successful submission.
  The handler does not keep it: the assignment \<^verbatim>\<open>resultSection.hidden = true\<close> of line 27
  comes after the early \<^verbatim>\<open>return\<close> of line 21. From any page, a submission answered with
  status 200 and a JSON body the host serialises shows \<open>Success\<close> with the surface visible,
  and a submission with no file selected right after it shows \<open>Error\<close> with the surface
  still visible.
\<close>

theorem stale_result_beside_no_file_error:
  assumes "json_stringify P payload = Inr text"
  shows "submission_state (submit P [f] (Resolved \<lparr>status = 200, json_body = Inr payload\<rparr>) st)
           = Success
       \<and> \<not> result_hidden (submit P [f] (Resolved \<lparr>status = 200, json_body = Inr payload\<rparr>) st)
       \<and> submission_state
            (submit P [] outcome
               (submit P [f] (Resolved \<lparr>status = 200, json_body = Inr payload\<rparr>) st))
           = Error
       \<and> \<not> result_hidden
            (submit P [] outcome
               (submit P [f] (Resolved \<lparr>status = 200, json_body = Inr payload\<rparr>) st))"
  by (simp add: submit_no_file submit_with_file resume_success [OF _ _ assms] ok_def page_simps
        submission_state_def analyzing_message_def)

theorem stale_result_beside_no_file_error_witness:
  "json_stringify sample_host (JObj []) = Inr ''{}''
   \<and> submission_state
        (submit sample_host [''scene.png''] (Resolved \<lparr>status = 200, json_body = Inr (JObj [])\<rparr>)
           blank_page)
       = Success
   \<and> submission_state
        (submit sample_host [] (Rejected (TypeError ''Failed to fetch''))
           (submit sample_host [''scene.png''] (Resolved \<lparr>status = 200, json_body = Inr (JObj [])\<rparr>)
              blank_page))
       = Error
   \<and> \<not> result_hidden
        (submit sample_host [] (Rejected (TypeError ''Failed to fetch''))
           (submit sample_host [''scene.png''] (Resolved \<lparr>status = 200, json_body = Inr (JObj [])\<rparr>)
              blank_page))"
  using stale_result_beside_no_file_error
    [OF sample_stringify_empty_object, of "''scene.png''" blank_page
        "Rejected (TypeError ''Failed to fetch'')"]
  by (simp add: sample_stringify_empty_object)

subsection \<open>A response with a failure status\<close>

text \<open>
  C3, as the handler has it. For every submission with a file whose response has a status
  outside 200 to 299 and a JSON body other than \<^verbatim>\<open>null\<close>, where \<open>field\<close> is what
  \<^verbatim>\<open>payload.error\<close> reads (\<open>None\<close> when the body has no such property): the page shows
  \<open>Error\<close> with the error styling and the result surface hidden. The status text is "The
  analysis failed." when the field is absent and also when it is present with a falsy
  value. It is the field's value when that is a non-empty string. For a truthy value that
  is not a string it is the text the host converts the value to, and when that conversion
  throws, the \<^verbatim>\<open>catch\<close> block logs the exception and the status text is "Unexpected error
  while analyzing the image.".
\<close>

theorem rejected_response_message:
  assumes "files \<noteq> []"
    and "\<not> (200 \<le> status r \<and> status r \<le> 299)"
    and "json_body r = Inr payload"
    and "error_field payload = Inr field"
  shows "status_class (submit P files (Resolved r) st) = ''status error''
       \<and> submission_state (submit P files (Resolved r) st) = Error
       \<and> result_hidden (submit P files (Resolved r) st)
       \<and> (field = None \<longrightarrow> status_text (submit P files (Resolved r) st) = ''The analysis failed.'')
       \<and> (\<forall>v. field = Some v \<and> \<not> truthy P v \<longrightarrow>
             status_text (submit P files (Resolved r) st) = ''The analysis failed.'')
       \<and> (\<forall>s. field = Some (JStr s) \<and> s \<noteq> [] \<longrightarrow>
             status_text (submit P files (Resolved r) st) = s)
       \<and> (\<forall>v text. field = Some v \<and> truthy P v \<and> message_text P v = Inr text \<longrightarrow>
             status_text (submit P files (Resolved r) st) = text)
       \<and> (\<forall>v e. field = Some v \<and> truthy P v \<and> message_text P v = Inl e \<longrightarrow>
             status_text (submit P files (Resolved r) st)
               = ''Unexpected error while analyzing the image.''
             \<and> console_errors (host_calls (submit P files (Resolved r) st))
               = console_errors (host_calls st) @ [e])"
proof -
  obtain f fs where files: "files = f # fs"
    using assms(1) by (cases files) auto
  have nok: "\<not> ok r"
    using assms(2) by (simp add: ok_def)
  note run = submit_with_file resume_rejected [OF nok assms(3) assms(4)]
  have cls: "status_class (submit P files (Resolved r) st) = ''status error''"
    unfolding files run by (simp add: page_simps split: sum.splits)
  have hid: "result_hidden (submit P files (Resolved r) st)"
    unfolding files run by (simp add: page_simps split: sum.splits)
  have shown: "status_text (submit P files (Resolved r) st) =
      (case message_text P (case field of
                              Some v \<Rightarrow> if truthy P v then v else JStr ''The analysis failed.''
                            | None \<Rightarrow> JStr ''The analysis failed.'') of
         Inl e \<Rightarrow> ''Unexpected error while analyzing the image.''
       | Inr text \<Rightarrow> text)"
    unfolding files run by (simp add: page_simps split: sum.splits)
  have logged: "console_errors (host_calls (submit P files (Resolved r) st)) =
      (case message_text P (case field of
                              Some v \<Rightarrow> if truthy P v then v else JStr ''The analysis failed.''
                            | None \<Rightarrow> JStr ''The analysis failed.'') of
         Inl e \<Rightarrow> console_errors (host_calls st) @ [e]
       | Inr text \<Rightarrow> console_errors (host_calls st))"
    unfolding files run by (simp add: page_simps split: sum.splits)
  show ?thesis
    using cls hid by (auto simp: shown logged error_class_state)
qed

theorem rejected_response_message_witness:
  "[''scene.png''] \<noteq> []
   \<and> \<not> (200 \<le> (422::nat) \<and> (422::nat) \<le> 299)
   \<and> error_field (JObj [(''error'', JStr ''unsupported format'')])
       = Inr (Some (JStr ''unsupported format'' :: string json))
   \<and> status_text
        (submit sample_host [''scene.png'']
           (Resolved \<lparr>status = 422, json_body = Inr (JObj [(''error'', JStr ''unsupported format'')])\<rparr>)
           blank_page)
       = ''unsupported format''
   \<and> status_class
        (submit sample_host [''scene.png'']
           (Resolved \<lparr>status = 422, json_body = Inr (JObj [(''error'', JStr ''unsupported format'')])\<rparr>)
           blank_page)
       = ''status error''
   \<and> result_hidden
        (submit sample_host [''scene.png'']
           (Resolved \<lparr>status = 422, json_body = Inr (JObj [(''error'', JStr ''unsupported format'')])\<rparr>)
           blank_page)"
  using rejected_response_message
    [of "[''scene.png'']"
        "\<lparr>status = 422, json_body = Inr (JObj [(''error'', JStr ''unsupported format'')])\<rparr>"
        "JObj [(''error'', JStr ''unsupported format'')]"
        "Some (JStr ''unsupported format'')" sample_host blank_page]
  by simp

text \<open>
  The last case on the sample host: at status 400 with body
  \<^verbatim>\<open>{"error": {"toString": 1}}\<close> the field is truthy, its conversion throws, and the
  status shows the message of the \<^verbatim>\<open>catch\<close> block.
\<close>

lemma unconvertible_error_field_caught:
  "truthy sample_host (JObj [(''toString'', JNum ''1'')])
   \<and> status_text
        (submit sample_host [''scene.png'']
           (Resolved \<lparr>status = 400,
              json_body = Inr (JObj [(''error'', JObj [(''toString'', JNum ''1'')])])\<rparr>)
           blank_page)
       = ''Unexpected error while analyzing the image.''"
  by (simp add: submit_with_file submit_resume_def try_block_def ok_def setStatus_def
        sample_host_def within_stack_def stack_depth_def)

text \<open>
  C3 as stated fails: the status text is not the value of the \<^verbatim>\<open>error\<close> field whenever
  the field is present, and the fallback does not appear only when the field is absent. On
  a 400 response with body \<^verbatim>\<open>{"error": ""}\<close> the field is present, its value is the empty
  string, and the status shows "The analysis failed.".
\<close>

theorem empty_error_field_counterexample:
  "map_of [(''error'', JStr [] :: string json)] ''error'' = Some (JStr [])
   \<and> \<not> ok \<lparr>status = 400, json_body = Inr (JObj [(''error'', JStr [] :: string json)])\<rparr>
   \<and> status_text
        (submit sample_host [''scene.png'']
           (Resolved \<lparr>status = 400, json_body = Inr (JObj [(''error'', JStr [])])\<rparr>) blank_page)
       = ''The analysis failed.''
   \<and> status_text
        (submit sample_host [''scene.png'']
           (Resolved \<lparr>status = 400, json_body = Inr (JObj [(''error'', JStr [])])\<rparr>) blank_page)
       \<noteq> []"
  by (simp add: submit_with_file submit_resume_def try_block_def ok_def setStatus_def)

subsection \<open>A successful response\<close>

text \<open>
  C4, as the handler has it. For every submission with a file whose response has a status
  from 200 to 299 and a body that parses as JSON and that \<^verbatim>\<open>JSON.stringify\<close> serialises
  to \<open>text\<close>, the page shows \<open>Success\<close>: the status text is "Analysis complete." without
  the error styling, the result text area holds \<open>text\<close>, and the result surface is visible.
\<close>

theorem successful_response_shown:
  assumes "files \<noteq> []"
    and "200 \<le> status r \<and> status r \<le> 299"
    and "json_body r = Inr payload"
    and "json_stringify P payload = Inr text"
  shows "status_text (submit P files (Resolved r) st) = ''Analysis complete.''
       \<and> status_class (submit P files (Resolved r) st) = ''status''
       \<and> submission_state (submit P files (Resolved r) st) = Success
       \<and> result_text (submit P files (Resolved r) st) = text
       \<and> \<not> result_hidden (submit P files (Resolved r) st)"
proof -
  obtain f fs where files: "files = f # fs"
    using assms(1) by (cases files) auto
  have "ok r"
    using assms(2) by (simp add: ok_def)
  then show ?thesis
    unfolding files submit_with_file
    by (simp add: resume_success [OF _ assms(3) assms(4)] page_simps submission_state_def
          analyzing_message_def)
qed

theorem successful_response_shown_witness:
  \<open>[''scene.png''] \<noteq> []
   \<and> (200::nat) \<le> 200 \<and> (200::nat) \<le> 299
   \<and> json_stringify sample_host
        (JObj [(''region'', JStr ''coastal-plain''), (''confidence'', JNum ''0.82'')])
       = Inr (''{'' @ [CHR 0x0A] @ ''  "region": "coastal-plain",'' @ [CHR 0x0A]
              @ ''  "confidence": 0.82'' @ [CHR 0x0A] @ ''}'')
   \<and> status_text
        (submit sample_host [''scene.png'']
           (Resolved \<lparr>status = 200,
              json_body = Inr (JObj [(''region'', JStr ''coastal-plain''),
                                     (''confidence'', JNum ''0.82'')])\<rparr>) blank_page)
       = ''Analysis complete.''
   \<and> result_text
        (submit sample_host [''scene.png'']
           (Resolved \<lparr>status = 200,
              json_body = Inr (JObj [(''region'', JStr ''coastal-plain''),
                                     (''confidence'', JNum ''0.82'')])\<rparr>) blank_page)
       = ''{'' @ [CHR 0x0A] @ ''  "region": "coastal-plain",'' @ [CHR 0x0A]
         @ ''  "confidence": 0.82'' @ [CHR 0x0A] @ ''}''
   \<and> \<not> result_hidden
        (submit sample_host [''scene.png'']
           (Resolved \<lparr>status = 200,
              json_body = Inr (JObj [(''region'', JStr ''coastal-plain''),
                                     (''confidence'', JNum ''0.82'')])\<rparr>) blank_page)\<close>
proof -
  have serialised: \<open>json_stringify sample_host
        (JObj [(''region'', JStr ''coastal-plain''), (''confidence'', JNum ''0.82'')])
      = Inr (''{'' @ [CHR 0x0A] @ ''  "region": "coastal-plain",'' @ [CHR 0x0A]
             @ ''  "confidence": 0.82'' @ [CHR 0x0A] @ ''}'')\<close>
    by (simp add: sample_host_def within_stack_def stack_depth_def quote_def quote_char_def)
  show ?thesis
    using serialised
      successful_response_shown
        [of "[''scene.png'']"
            "\<lparr>status = 200,
               json_body = Inr (JObj [(''region'', JStr ''coastal-plain''),
                                      (''confidence'', JNum ''0.82'')])\<rparr>"
            "JObj [(''region'', JStr ''coastal-plain''), (''confidence'', JNum ''0.82'')]"
            sample_host _ blank_page, OF _ _ _ serialised]
    by simp
qed

text \<open>
  C4 as stated fails: not every response with a status from 200 to 299 and a parseable body
  ends in \<open>Success\<close>. \<^verbatim>\<open>showResult\<close> runs inside the \<^verbatim>\<open>try\<close> block, so when
  \<^verbatim>\<open>JSON.stringify\<close> throws on the parsed body the \<^verbatim>\<open>catch\<close> block takes over. On a 200
  response whose body is 5000 arrays nested around an empty one, deeper than the sample
  host's stack, the page shows \<open>Error\<close> with status text "Unexpected error while analyzing
  the image." and the result surface stays hidden.
\<close>

theorem unserialisable_body_counterexample:
  "(200::nat) \<le> 200 \<and> (200::nat) \<le> 299
   \<and> json_stringify sample_host (nested 5000)
       = Inl (RangeError ''Maximum call stack size exceeded'')
   \<and> status_text
        (submit sample_host [''scene.png'']
           (Resolved \<lparr>status = 200, json_body = Inr (nested 5000)\<rparr>) blank_page)
       = ''Unexpected error while analyzing the image.''
   \<and> status_class
        (submit sample_host [''scene.png'']
           (Resolved \<lparr>status = 200, json_body = Inr (nested 5000)\<rparr>) blank_page)
       = ''status error''
   \<and> submission_state
        (submit sample_host [''scene.png'']
           (Resolved \<lparr>status = 200, json_body = Inr (nested 5000)\<rparr>) blank_page)
       = Error
   \<and> result_hidden
        (submit sample_host [''scene.png'']
           (Resolved \<lparr>status = 200, json_body = Inr (nested 5000)\<rparr>) blank_page)"
proof -
  have thrown: "json_stringify sample_host (nested 5000)
      = Inl (RangeError ''Maximum call stack size exceeded'')"
    by (simp add: sample_host_def within_stack_def stack_depth_def depth_nested)
  show ?thesis
    by (simp add: thrown submit_with_file resume_unserialised [OF _ _ thrown] ok_def
          page_simps submission_state_def blank_page_def)
qed

subsection \<open>Exceptions\<close>

text \<open>
  C5. For every submission with a file where \<^verbatim>\<open>fetch\<close> rejects with \<open>e\<close>, or a response
  arrives (with any status) and \<^verbatim>\<open>response.json()\<close> rejects with \<open>e\<close>, the page shows
  \<open>Error\<close> with status text exactly "Unexpected error while analyzing the image.", the
  cause \<open>e\<close> is logged with \<^verbatim>\<open>console.error\<close>, and the result surface is hidden.
\<close>

theorem thrown_error_reported:
  assumes "files \<noteq> []"
    and "outcome = Rejected e \<or> (\<exists>r. outcome = Resolved r \<and> json_body r = Inl e)"
  shows "status_text (submit P files outcome st) = ''Unexpected error while analyzing the image.''
       \<and> status_class (submit P files outcome st) = ''status error''
       \<and> submission_state (submit P files outcome st) = Error
       \<and> console_errors (host_calls (submit P files outcome st))
           = console_errors (host_calls st) @ [e]
       \<and> result_hidden (submit P files outcome st)"
proof -
  obtain f fs where files: "files = f # fs"
    using assms(1) by (cases files) auto
  show ?thesis
    unfolding files submit_with_file resume_thrown [OF assms(2)]
    by (simp add: page_simps submission_state_def)
qed

theorem thrown_error_reported_witness:
  "[''scene.png''] \<noteq> []
   \<and> (Rejected (TypeError ''Failed to fetch'') :: string fetch_outcome)
       = Rejected (TypeError ''Failed to fetch'')
   \<and> status_text (submit sample_host [''scene.png''] (Rejected (TypeError ''Failed to fetch'')) blank_page)
       = ''Unexpected error while analyzing the image.''
   \<and> console_errors
        (host_calls (submit sample_host [''scene.png''] (Rejected (TypeError ''Failed to fetch'')) blank_page))
       = [TypeError ''Failed to fetch'']
   \<and> result_hidden (submit sample_host [''scene.png''] (Rejected (TypeError ''Failed to fetch'')) blank_page)"
  using thrown_error_reported
    [of "[''scene.png'']" "Rejected (TypeError ''Failed to fetch'')" "TypeError ''Failed to fetch''"
        sample_host blank_page]
  by (simp add: blank_page_def)

subsection \<open>The request\<close>

text \<open>
  C6. For every submission with a file selected the handler calls \<^verbatim>\<open>fetch\<close> exactly once,
  whatever the network answers: the requests issued are those issued before and one more,
  a \<^verbatim>\<open>POST\<close> to \<^verbatim>\<open>/analyze\<close> whose form data holds the single field \<^verbatim>\<open>image\<close> with
  the first selected file.
\<close>

theorem one_request_issued:
  assumes "files \<noteq> []"
  shows "fetch_calls (host_calls (submit P files outcome st))
       = fetch_calls (host_calls st)
         @ [\<lparr>url = ''/analyze'', http_method = ''POST'', form_data = [(''image'', hd files)]\<rparr>]"
proof -
  obtain f fs where files: "files = f # fs"
    using assms by (cases files) auto
  have begun: "fetch_calls (host_calls
        (call (Fetch \<lparr>url = ''/analyze'', http_method = ''POST'', form_data = [(''image'', f)]\<rparr>)
           ((setStatus analyzing_message False (call PreventDefault st))\<lparr>result_hidden := True\<rparr>)))
      = fetch_calls (host_calls st)
        @ [\<lparr>url = ''/analyze'', http_method = ''POST'', form_data = [(''image'', f)]\<rparr>]"
    by (simp add: page_simps)
  have kept: "fetch_calls (host_calls (submit_resume P outcome st')) = fetch_calls (host_calls st')"
    for st' :: "'a page"
    by (simp add: submit_resume_def try_block_def page_simps Let_def
          split: fetch_outcome.splits sum.splits option.splits)
  show ?thesis
    unfolding files submit_with_file kept begun by simp
qed

theorem one_request_issued_witness:
  "[''scene.png'', ''other.jpg''] \<noteq> []
   \<and> fetch_calls
        (host_calls
           (submit sample_host [''scene.png'', ''other.jpg'']
              (Resolved \<lparr>status = 200, json_body = Inr (JObj [])\<rparr>) blank_page))
       = [\<lparr>url = ''/analyze'', http_method = ''POST'', form_data = [(''image'', ''scene.png'')]\<rparr>]"
  using one_request_issued
    [of "[''scene.png'', ''other.jpg'']" sample_host
        "Resolved \<lparr>status = 200, json_body = Inr (JObj [])\<rparr>" blank_page]
  by (simp add: blank_page_def)

subsection \<open>Parsing comes before the status check\<close>

text \<open>
  C7. The body is parsed before \<^verbatim>\<open>response.ok\<close> is read: when \<^verbatim>\<open>response.json()\<close>
  rejects with \<open>e\<close>, the run is the same for every status code, in particular for a code
  outside 200 to 299, and it ends in the \<^verbatim>\<open>catch\<close> block (status text "Unexpected error
  while analyzing the image.", \<open>e\<close> logged), not in the branch of line 37.
\<close>

theorem body_parsed_before_status:
  assumes "files \<noteq> []"
    and "json_body r = Inl e"
  shows "status_text (submit P files (Resolved (r\<lparr>status := code\<rparr>)) st)
           = ''Unexpected error while analyzing the image.''
       \<and> console_errors (host_calls (submit P files (Resolved (r\<lparr>status := code\<rparr>)) st))
           = console_errors (host_calls st) @ [e]
       \<and> submit P files (Resolved (r\<lparr>status := code\<rparr>)) st = submit P files (Resolved r) st"
proof -
  obtain f fs where files: "files = f # fs"
    using assms(1) by (cases files) auto
  have thrown: "submit_resume P (Resolved (r\<lparr>status := c\<rparr>)) st' =
      setStatus ''Unexpected error while analyzing the image.'' True (call (ConsoleError e) st')"
    for c and st' :: "'a page"
    using assms(2) by (intro resume_thrown) simp
  have same: "submit_resume P (Resolved r) st' = submit_resume P (Resolved (r\<lparr>status := c\<rparr>)) st'"
    for c and st' :: "'a page"
    using thrown [of "status r" st'] thrown [of c st'] by simp
  show ?thesis
    unfolding files submit_with_file same [of _ code]
    by (simp add: thrown page_simps)
qed

theorem body_parsed_before_status_witness:
  "[''scene.png''] \<noteq> []
   \<and> json_body \<lparr>status = 200, json_body = Inl (SyntaxError ''Unexpected end of JSON input'')\<rparr>
       = (Inl (SyntaxError ''Unexpected end of JSON input'') :: js_exn + string json)
   \<and> status_text
        (submit sample_host [''scene.png'']
           (Resolved \<lparr>status = 502, json_body = Inl (SyntaxError ''Unexpected end of JSON input'')\<rparr>)
           blank_page)
       = ''Unexpected error while analyzing the image.''
   \<and> console_errors
        (host_calls
           (submit sample_host [''scene.png'']
              (Resolved \<lparr>status = 502, json_body = Inl (SyntaxError ''Unexpected end of JSON input'')\<rparr>)
              blank_page))
       = [SyntaxError ''Unexpected end of JSON input'']
   \<and> submit sample_host [''scene.png'']
         (Resolved \<lparr>status = 502, json_body = Inl (SyntaxError ''Unexpected end of JSON input'')\<rparr>)
         blank_page
       = submit sample_host [''scene.png'']
           (Resolved \<lparr>status = 200, json_body = Inl (SyntaxError ''Unexpected end of JSON input'')\<rparr>)
           (blank_page :: string page)"
  using body_parsed_before_status
    [of "[''scene.png'']"
        "\<lparr>status = 200, json_body = Inl (SyntaxError ''Unexpected end of JSON input'')\<rparr>"
        "SyntaxError ''Unexpected end of JSON input''" sample_host 502 blank_page]
  by (simp add: blank_page_def submit_with_file submit_resume_def try_block_def page_simps)

subsection \<open>Repeating a successful submission\<close>

text \<open>
  C8. A successful submission (a file selected, a status from 200 to 299, a JSON body) run
  twice in a row shows the same status text, status class, result visibility and result
  text after the second run as after the first. When the body is serialised to \<open>text\<close>,
  what the run shows is the completion message, the class \<^verbatim>\<open>status\<close>, the visible result
  surface and \<open>text\<close>, whatever the page \<open>st\<close> it started from, so nothing of an earlier
  \<open>Error\<close> run stays; when serialising throws, both runs end alike in the \<^verbatim>\<open>catch\<close>
  block.
\<close>

theorem repeated_success_same_view:
  assumes "files \<noteq> []"
    and "200 \<le> status r \<and> status r \<le> 299"
    and "json_body r = Inr payload"
  shows "visible_state (submit P files (Resolved r) (submit P files (Resolved r) st))
           = visible_state (submit P files (Resolved r) st)
       \<and> visible_state (submit P files (Resolved r) st)
           = (case json_stringify P payload of
                Inr text \<Rightarrow> (''Analysis complete.'', ''status'', False, text)
              | Inl e \<Rightarrow> (''Unexpected error while analyzing the image.'', ''status error'', True,
                         result_text st))"
proof -
  obtain f fs where files: "files = f # fs"
    using assms(1) by (cases files) auto
  have "ok r"
    using assms(2) by (simp add: ok_def)
  then have once: "visible_state (submit P files (Resolved r) st')
      = (case json_stringify P payload of
           Inr text \<Rightarrow> (''Analysis complete.'', ''status'', False, text)
         | Inl e \<Rightarrow> (''Unexpected error while analyzing the image.'', ''status error'', True,
                    result_text st'))"
    for st' :: "'a page"
    unfolding files submit_with_file
    by (cases "json_stringify P payload")
      (simp_all add: resume_success [OF _ assms(3)] resume_unserialised [OF _ assms(3)]
         page_simps visible_state_def)
  have kept: "result_text (submit P files (Resolved r) st) = result_text st"
    if "json_stringify P payload = Inl e" for e
    using once [of st] that by (simp add: visible_state_def)
  show ?thesis
    by (cases "json_stringify P payload") (simp_all add: once kept)
qed

theorem repeated_success_same_view_witness:
  "[''scene.png''] \<noteq> []
   \<and> (200::nat) \<le> 200 \<and> (200::nat) \<le> 299
   \<and> visible_state (submit sample_host [] (Rejected (TypeError ''Failed to fetch'')) (blank_page :: string page))
       = (''Please choose a PNG or JPEG file to analyze.'', ''status error'', True, [])
   \<and> visible_state
        (submit sample_host [''scene.png''] (Resolved \<lparr>status = 200, json_body = Inr (JObj [])\<rparr>)
           (submit sample_host [''scene.png''] (Resolved \<lparr>status = 200, json_body = Inr (JObj [])\<rparr>)
              (submit sample_host [] (Rejected (TypeError ''Failed to fetch'')) blank_page)))
       = visible_state
           (submit sample_host [''scene.png''] (Resolved \<lparr>status = 200, json_body = Inr (JObj [])\<rparr>)
              (submit sample_host [] (Rejected (TypeError ''Failed to fetch'')) blank_page))
   \<and> visible_state
        (submit sample_host [''scene.png''] (Resolved \<lparr>status = 200, json_body = Inr (JObj [])\<rparr>)
           (submit sample_host [] (Rejected (TypeError ''Failed to fetch'')) blank_page))
       = (''Analysis complete.'', ''status'', False, ''{}'')"
  using repeated_success_same_view
    [of "[''scene.png'']" "\<lparr>status = 200, json_body = Inr (JObj [])\<rparr>" "JObj []" sample_host
        "submit sample_host [] (Rejected (TypeError ''Failed to fetch'')) blank_page"]
  by (simp add: sample_stringify_empty_object submit_no_file blank_page_def visible_state_def
        page_simps)

subsection \<open>A falsy error field\<close>

text \<open>
  C9. For every submission with a file whose response has a status outside 200 to 299 and
  a JSON object body with an \<^verbatim>\<open>error\<close> property of falsy value (by \<open>falsy_iff\<close>: the empty
  string, \<^verbatim>\<open>null\<close>, \<^verbatim>\<open>false\<close> or a number the host takes for false, such as 0), the
  status shows the fallback "The analysis failed." although the property is present.
\<close>

theorem falsy_error_field_fallback:
  assumes "files \<noteq> []"
    and "\<not> (200 \<le> status r \<and> status r \<le> 299)"
    and "json_body r = Inr (JObj kvs)"
    and "map_of kvs ''error'' = Some v"
    and "\<not> truthy P v"
  shows "status_text (submit P files (Resolved r) st) = ''The analysis failed.''
       \<and> status_class (submit P files (Resolved r) st) = ''status error''"
proof -
  obtain f fs where files: "files = f # fs"
    using assms(1) by (cases files) auto
  have nok: "\<not> ok r"
    using assms(2) by (simp add: ok_def)
  have field: "error_field (JObj kvs) = Inr (Some v)"
    using assms(4) by simp
  show ?thesis
    unfolding files submit_with_file resume_rejected [OF nok assms(3) field]
    using assms(5) by (simp add: page_simps)
qed

theorem falsy_error_field_fallback_witness:
  "[''scene.png''] \<noteq> []
   \<and> \<not> (200 \<le> (500::nat) \<and> (500::nat) \<le> 299)
   \<and> map_of [(''error'', JNum ''0''), (''detail'', JStr ''out of memory'')] ''error'' = Some (JNum ''0'')
   \<and> \<not> truthy sample_host (JNum ''0'')
   \<and> \<not> truthy sample_host (JStr [])
   \<and> \<not> truthy sample_host JNull
   \<and> \<not> truthy sample_host (JBool False)
   \<and> status_text
        (submit sample_host [''scene.png'']
           (Resolved \<lparr>status = 500,
              json_body = Inr (JObj [(''error'', JNum ''0''), (''detail'', JStr ''out of memory'')])\<rparr>)
           blank_page)
       = ''The analysis failed.''"
  using falsy_error_field_fallback
    [of "[''scene.png'']"
        "\<lparr>status = 500,
           json_body = Inr (JObj [(''error'', JNum ''0''), (''detail'', JStr ''out of memory'')])\<rparr>"
        "[(''error'', JNum ''0''), (''detail'', JStr ''out of memory'')]" "JNum ''0''"
        sample_host blank_page]
  by (simp add: sample_host_def)

subsection \<open>The class of the status element\<close>



end
